theory Spec2Isabelle
  imports Main
begin

section \<open>Data model of \<^verbatim>\<open>rope.ts\<close>\<close>

text \<open>
  The only failure the source can produce is the JavaScript \<^verbatim>\<open>TypeError\<close> raised when a
  property (\<^verbatim>\<open>kind\<close>) of \<^verbatim>\<open>undefined\<close> is read. No function of the source validates an
  index or raises an error of its own.
\<close>

datatype error = TypeError

text \<open>
  Sizes, positions and locations are JavaScript numbers holding integers; they are \<open>int\<close>
  here. A string is the list of its code units, so that \<open>length\<close> is \<^verbatim>\<open>.length\<close>.
\<close>

text \<open>
  \<^verbatim>\<open>MapRepresentation = MapBranch | MapLeaf\<close>. The fields \<^verbatim>\<open>left?\<close> and \<^verbatim>\<open>right?\<close> of a
  \<^verbatim>\<open>MapBranch\<close> are optional: \<open>None\<close> is \<^verbatim>\<open>undefined\<close>. The third argument is the field
  \<^verbatim>\<open>size\<close>.
\<close>

datatype MapRepresentation =
    MapLeaf string
  | MapBranch "MapRepresentation option" "MapRepresentation option" int

text \<open>
  \<^verbatim>\<open>RopeLeaf\<close> and \<^verbatim>\<open>RopeBranch\<close>, the two classes implementing \<^verbatim>\<open>IRope\<close>. A child of a
  \<^verbatim>\<open>RopeBranch\<close> may be \<^verbatim>\<open>null\<close> or \<^verbatim>\<open>undefined\<close> (every method tests it for truthiness);
  both are \<open>None\<close>. The third argument is the field \<^verbatim>\<open>cachedSize\<close>.
\<close>

datatype IRope =
    RopeLeaf string
  | RopeBranch "IRope option" "IRope option" int

section \<open>Methods of the rope classes\<close>

fun toString :: "IRope \<Rightarrow> string" where
  "toString (RopeLeaf text) = text"
| "toString (RopeBranch left right cachedSize) =
     (case left of None \<Rightarrow> [] | Some l \<Rightarrow> toString l)
     @ (case right of None \<Rightarrow> [] | Some r \<Rightarrow> toString r)"

fun size_rope :: "IRope \<Rightarrow> int" where
  "size_rope (RopeLeaf text) = int (length text)"
| "size_rope (RopeBranch left right cachedSize) = cachedSize"

fun height :: "IRope \<Rightarrow> int" where
  "height (RopeLeaf text) = 1"
| "height (RopeBranch left right cachedSize) =
     1 + max (case left of None \<Rightarrow> 0 | Some l \<Rightarrow> height l)
             (case right of None \<Rightarrow> 0 | Some r \<Rightarrow> height r)"

definition leftHeight :: "IRope option \<Rightarrow> int" where
  "leftHeight left = (case left of None \<Rightarrow> 0 | Some l \<Rightarrow> height l)"

definition rightHeight :: "IRope option \<Rightarrow> int" where
  "rightHeight right = (case right of None \<Rightarrow> 0 | Some r \<Rightarrow> height r)"

fun isBalanced :: "IRope \<Rightarrow> bool" where
  "isBalanced (RopeLeaf text) = True"
| "isBalanced (RopeBranch left right cachedSize) =
     (let leftBalanced = (case left of None \<Rightarrow> True | Some l \<Rightarrow> isBalanced l);
          rightBalanced = (case right of None \<Rightarrow> True | Some r \<Rightarrow> isBalanced r)
      in leftBalanced \<and> rightBalanced \<and> \<bar>leftHeight left - rightHeight right\<bar> < 2)"

fun toMap :: "IRope \<Rightarrow> MapRepresentation" where
  "toMap (RopeLeaf text) = MapLeaf text"
| "toMap (RopeBranch left right cachedSize) =
     MapBranch (case left of None \<Rightarrow> None | Some l \<Rightarrow> Some (toMap l))
               (case right of None \<Rightarrow> None | Some r \<Rightarrow> Some (toMap r))
               cachedSize"

text \<open>The constructor of \<^verbatim>\<open>RopeBranch\<close>: the cached size is computed from the children.\<close>

definition new_RopeBranch :: "IRope option \<Rightarrow> IRope option \<Rightarrow> IRope" where
  "new_RopeBranch left right =
     RopeBranch left right
       ((case left of None \<Rightarrow> 0 | Some l \<Rightarrow> size_rope l)
        + (case right of None \<Rightarrow> 0 | Some r \<Rightarrow> size_rope r))"

fun createRopeFromMap :: "MapRepresentation \<Rightarrow> IRope" where
  "createRopeFromMap (MapLeaf text) = RopeLeaf text"
| "createRopeFromMap (MapBranch left right sz) =
     new_RopeBranch (case left of None \<Rightarrow> None | Some l \<Rightarrow> Some (createRopeFromMap l))
                    (case right of None \<Rightarrow> None | Some r \<Rightarrow> Some (createRopeFromMap r))"

section \<open>Strings\<close>

text \<open>
  \<^verbatim>\<open>String.prototype.substring(indexStart, indexEnd)\<close> on integer arguments: each argument
  is clamped to \<open>[0, length]\<close> and the two are swapped when the first is the larger. The
  one-argument form takes the length as the end.
\<close>

definition substring :: "string \<Rightarrow> int \<Rightarrow> int \<Rightarrow> string" where
  "substring s indexStart indexEnd =
     (let len = int (length s);
          a = max 0 (min indexStart len);
          b = max 0 (min indexEnd len)
      in take (nat (max a b - min a b)) (drop (nat (min a b)) s))"

definition substring_from :: "string \<Rightarrow> int \<Rightarrow> string" where
  "substring_from s indexStart = substring s indexStart (int (length s))"

section \<open>Sizes and concatenation of maps\<close>

text \<open>
  \<^verbatim>\<open>getSize(map)\<close> reads \<^verbatim>\<open>map.kind\<close> first: on \<^verbatim>\<open>undefined\<close> this raises a
  \<^verbatim>\<open>TypeError\<close>. \<open>getSize\<close> is the function on a map that is there and
  \<open>getSize_undef\<close> the same call on a field that may be \<^verbatim>\<open>undefined\<close>.
\<close>

fun getSize :: "MapRepresentation \<Rightarrow> int" where
  "getSize (MapLeaf text) = int (length text)"
| "getSize (MapBranch left right sz) = sz"

fun getSize_undef :: "MapRepresentation option \<Rightarrow> error + int" where
  "getSize_undef None = Inl TypeError"
| "getSize_undef (Some m) = Inr (getSize m)"

fun concatenateTwoMaps ::
  "MapRepresentation option \<Rightarrow> MapRepresentation option \<Rightarrow> error + MapRepresentation" where
  "concatenateTwoMaps map_1 map_2 =
     (case getSize_undef map_1 of
        Inl e \<Rightarrow> Inl e
      | Inr s1 \<Rightarrow>
          (case getSize_undef map_2 of
             Inl e \<Rightarrow> Inl e
           | Inr s2 \<Rightarrow> Inr (MapBranch map_1 map_2 (s1 + s2))))"

text \<open>
  The loop of \<^verbatim>\<open>concatenateMapList\<close> over \<^verbatim>\<open>list[1..]\<close>, with \<^verbatim>\<open>leftTree\<close> as the
  accumulator. \<^verbatim>\<open>list[0]\<close> of an empty list is \<^verbatim>\<open>undefined\<close>, and the function then
  returns \<^verbatim>\<open>undefined\<close>.
\<close>

fun concatenateLoop ::
  "MapRepresentation option \<Rightarrow> MapRepresentation option list
     \<Rightarrow> error + MapRepresentation option" where
  "concatenateLoop leftTree [] = Inr leftTree"
| "concatenateLoop leftTree (x # xs) =
     (case concatenateTwoMaps leftTree x of
        Inl e \<Rightarrow> Inl e
      | Inr t \<Rightarrow> concatenateLoop (Some t) xs)"

fun concatenateMapList :: "MapRepresentation option list \<Rightarrow> error + MapRepresentation option" where
  "concatenateMapList [] = Inr None"
| "concatenateMapList (x # xs) = concatenateLoop x xs"

text \<open>
  \<^verbatim>\<open>createRopeFromMap\<close> applied to a value that may be \<^verbatim>\<open>undefined\<close>: it reads
  \<^verbatim>\<open>map.kind\<close> first.
\<close>

fun createRopeFromMap_undef :: "MapRepresentation option \<Rightarrow> error + IRope" where
  "createRopeFromMap_undef None = Inl TypeError"
| "createRopeFromMap_undef (Some m) = Inr (createRopeFromMap m)"

section \<open>Split, revision \<^verbatim>\<open>src/lib/rope.ts\<close>\<close>

text \<open>
  \<^verbatim>\<open>splitHelper(map, position, list)\<close> mutates \<^verbatim>\<open>map\<close> and pushes onto \<^verbatim>\<open>list\<close>; the
  model returns the map it returns together with the list after the call. \<^verbatim>\<open>splitAt\<close>
  passes the fresh tree built by \<^verbatim>\<open>rope.toMap()\<close>, in which no object occurs twice, a
  node is written only after the recursive call below it has returned, and a map pushed on
  the list is never written afterwards, so passing values is exact. A recursive call on
  a child that is \<^verbatim>\<open>undefined\<close> raises at \<^verbatim>\<open>map.kind\<close>.
\<close>

fun splitHelper ::
  "MapRepresentation \<Rightarrow> int \<Rightarrow> MapRepresentation option list
     \<Rightarrow> error + (MapRepresentation \<times> MapRepresentation option list)" where
  "splitHelper (MapLeaf text) position list =
     (let leftLeafNode = MapLeaf (substring text 0 (position + 1));
          rightLeafNode = MapLeaf (substring_from text (position + 1));
          mapBranchNode = MapBranch (Some leftLeafNode) None (getSize leftLeafNode)
      in Inr (mapBranchNode, list @ [Some rightLeafNode]))"
| "splitHelper (MapBranch left right sz) position list =
     (case getSize_undef left of
        Inl e \<Rightarrow> Inl e
      | Inr leftSize \<Rightarrow>
          if leftSize = position + 1 then
            (case getSize_undef right of
               Inl e \<Rightarrow> Inl e
             | Inr rightSize \<Rightarrow> Inr (MapBranch left None (sz - rightSize), list @ [right]))
          else if leftSize > position + 1 then
            (case left of
               None \<Rightarrow> Inl TypeError
             | Some l \<Rightarrow>
                 (case splitHelper l position list of
                    Inl e \<Rightarrow> Inl e
                  | Inr (leftSubtreeAns, list') \<Rightarrow>
                      Inr (MapBranch (Some leftSubtreeAns) None (getSize leftSubtreeAns),
                           list' @ [right])))
          else
            (case right of
               None \<Rightarrow> Inl TypeError
             | Some r \<Rightarrow>
                 (case splitHelper r (position - leftSize) list of
                    Inl e \<Rightarrow> Inl e
                  | Inr (rightSubtreeAns, list') \<Rightarrow>
                      Inr (MapBranch left (Some rightSubtreeAns) (getSize rightSubtreeAns),
                           list'))))"

definition splitAt :: "IRope \<Rightarrow> int \<Rightarrow> error + (IRope \<times> IRope)" where
  "splitAt rope position =
     (case splitHelper (toMap rope) position [] of
        Inl e \<Rightarrow> Inl e
      | Inr (leftMap, list) \<Rightarrow>
          (case concatenateMapList list of
             Inl e \<Rightarrow> Inl e
           | Inr rightMap \<Rightarrow>
               (case createRopeFromMap_undef rightMap of
                  Inl e \<Rightarrow> Inl e
                | Inr right \<Rightarrow> Inr (createRopeFromMap leftMap, right))))"

definition insert_rope :: "IRope \<Rightarrow> string \<Rightarrow> int \<Rightarrow> error + IRope" where
  "insert_rope rope text location =
     (let textRope = RopeLeaf text in
      if location = 0 then
        (case concatenateTwoMaps (Some (toMap textRope)) (Some (toMap rope)) of
           Inl e \<Rightarrow> Inl e
         | Inr m \<Rightarrow> Inr (createRopeFromMap m))
      else
        (case splitAt rope (location - 1) of
           Inl e \<Rightarrow> Inl e
         | Inr (left, right) \<Rightarrow>
             (case concatenateMapList [Some (toMap left), Some (toMap textRope), Some (toMap right)] of
                Inl e \<Rightarrow> Inl e
              | Inr constructedMap \<Rightarrow> createRopeFromMap_undef constructedMap)))"

section \<open>Split and delete, revision \<^verbatim>\<open>src/unnamed/part_000\<close>\<close>

text \<open>
  The second revision differs from the first in the leaf case of \<^verbatim>\<open>splitHelper\<close>, which
  returns the left leaf itself, and in having a body for \<^verbatim>\<open>deleteRange\<close> (in
  \<^verbatim>\<open>src/lib/rope.ts\<close> the body is a \<^verbatim>\<open>TODO\<close> comment). Its definitions carry the suffix
  \<open>_part000\<close>.
\<close>

fun splitHelper_part000 ::
  "MapRepresentation \<Rightarrow> int \<Rightarrow> MapRepresentation option list
     \<Rightarrow> error + (MapRepresentation \<times> MapRepresentation option list)" where
  "splitHelper_part000 (MapLeaf text) position list =
     (let leftLeafNode = MapLeaf (substring text 0 (position + 1));
          rightLeafNode = MapLeaf (substring_from text (position + 1))
      in Inr (leftLeafNode, list @ [Some rightLeafNode]))"
| "splitHelper_part000 (MapBranch left right sz) position list =
     (case getSize_undef left of
        Inl e \<Rightarrow> Inl e
      | Inr leftSize \<Rightarrow>
          if leftSize = position + 1 then
            (case getSize_undef right of
               Inl e \<Rightarrow> Inl e
             | Inr rightSize \<Rightarrow> Inr (MapBranch left None (sz - rightSize), list @ [right]))
          else if leftSize > position + 1 then
            (case left of
               None \<Rightarrow> Inl TypeError
             | Some l \<Rightarrow>
                 (case splitHelper_part000 l position list of
                    Inl e \<Rightarrow> Inl e
                  | Inr (leftSubtreeAns, list') \<Rightarrow>
                      Inr (MapBranch (Some leftSubtreeAns) None (getSize leftSubtreeAns),
                           list' @ [right])))
          else
            (case right of
               None \<Rightarrow> Inl TypeError
             | Some r \<Rightarrow>
                 (case splitHelper_part000 r (position - leftSize) list of
                    Inl e \<Rightarrow> Inl e
                  | Inr (rightSubtreeAns, list') \<Rightarrow>
                      Inr (MapBranch left (Some rightSubtreeAns) (getSize rightSubtreeAns),
                           list'))))"

definition splitAt_part000 :: "IRope \<Rightarrow> int \<Rightarrow> error + (IRope \<times> IRope)" where
  "splitAt_part000 rope position =
     (case splitHelper_part000 (toMap rope) position [] of
        Inl e \<Rightarrow> Inl e
      | Inr (leftMap, list) \<Rightarrow>
          (case concatenateMapList list of
             Inl e \<Rightarrow> Inl e
           | Inr rightMap \<Rightarrow>
               (case createRopeFromMap_undef rightMap of
                  Inl e \<Rightarrow> Inl e
                | Inr right \<Rightarrow> Inr (createRopeFromMap leftMap, right))))"

definition insert_part000 :: "IRope \<Rightarrow> string \<Rightarrow> int \<Rightarrow> error + IRope" where
  "insert_part000 rope text location =
     (let textRope = RopeLeaf text in
      if location = 0 then
        (case concatenateTwoMaps (Some (toMap textRope)) (Some (toMap rope)) of
           Inl e \<Rightarrow> Inl e
         | Inr m \<Rightarrow> Inr (createRopeFromMap m))
      else
        (case splitAt_part000 rope (location - 1) of
           Inl e \<Rightarrow> Inl e
         | Inr (left, right) \<Rightarrow>
             (case concatenateMapList [Some (toMap left), Some (toMap textRope), Some (toMap right)] of
                Inl e \<Rightarrow> Inl e
              | Inr constructedMap \<Rightarrow> createRopeFromMap_undef constructedMap)))"

definition deleteRange :: "IRope \<Rightarrow> int \<Rightarrow> int \<Rightarrow> error + IRope" where
  "deleteRange rope start end =
     (case splitAt_part000 rope (start - 1) of
        Inl e \<Rightarrow> Inl e
      | Inr (leftStartSplit, rightStartSplit) \<Rightarrow>
          (case splitAt_part000 rightStartSplit (end - getSize (toMap leftStartSplit) - 1) of
             Inl e \<Rightarrow> Inl e
           | Inr (leftEndSplit, rightEndSplit) \<Rightarrow>
               (case concatenateMapList [Some (toMap leftStartSplit), Some (toMap rightEndSplit)] of
                  Inl e \<Rightarrow> Inl e
                | Inr constructedMap \<Rightarrow> createRopeFromMap_undef constructedMap)))"

section \<open>Notions used to state the properties\<close>

text \<open>
  The flattened text of a map, defined like \<^verbatim>\<open>toString\<close> of a rope, and the text of the
  fragments that \<^verbatim>\<open>splitHelper\<close> pushes on its list (\<^verbatim>\<open>undefined\<close> contributes nothing).
\<close>

fun mapText :: "MapRepresentation \<Rightarrow> string" where
  "mapText (MapLeaf text) = text"
| "mapText (MapBranch left right sz) =
     (case left of None \<Rightarrow> [] | Some l \<Rightarrow> mapText l)
     @ (case right of None \<Rightarrow> [] | Some r \<Rightarrow> mapText r)"

definition fragmentText :: "MapRepresentation option \<Rightarrow> string" where
  "fragmentText f = (case f of None \<Rightarrow> [] | Some m \<Rightarrow> mapText m)"

definition fragmentsText :: "MapRepresentation option list \<Rightarrow> string" where
  "fragmentsText frags = concat (map fragmentText frags)"

text \<open>
  The size invariant of a rope: the cached size of every branch is the sum of the sizes
  of its children, an absent child counting 0. \<open>mapSizeInvariant\<close> is the same on a map.
\<close>

fun sizeInvariant :: "IRope \<Rightarrow> bool" where
  "sizeInvariant (RopeLeaf text) = True"
| "sizeInvariant (RopeBranch left right cachedSize) =
     (cachedSize = (case left of None \<Rightarrow> 0 | Some l \<Rightarrow> size_rope l)
                   + (case right of None \<Rightarrow> 0 | Some r \<Rightarrow> size_rope r)
      \<and> (case left of None \<Rightarrow> True | Some l \<Rightarrow> sizeInvariant l)
      \<and> (case right of None \<Rightarrow> True | Some r \<Rightarrow> sizeInvariant r))"

fun mapSizeInvariant :: "MapRepresentation \<Rightarrow> bool" where
  "mapSizeInvariant (MapLeaf text) = True"
| "mapSizeInvariant (MapBranch left right sz) =
     (sz = (case left of None \<Rightarrow> 0 | Some l \<Rightarrow> getSize l)
           + (case right of None \<Rightarrow> 0 | Some r \<Rightarrow> getSize r)
      \<and> (case left of None \<Rightarrow> True | Some l \<Rightarrow> mapSizeInvariant l)
      \<and> (case right of None \<Rightarrow> True | Some r \<Rightarrow> mapSizeInvariant r))"

text \<open>
  A rope (a map) in which every branch has both of its children.
\<close>

fun allChildrenPresent :: "IRope \<Rightarrow> bool" where
  "allChildrenPresent (RopeLeaf text) = True"
| "allChildrenPresent (RopeBranch left right cachedSize) =
     ((case left of None \<Rightarrow> False | Some l \<Rightarrow> allChildrenPresent l)
      \<and> (case right of None \<Rightarrow> False | Some r \<Rightarrow> allChildrenPresent r))"

fun mapAllChildrenPresent :: "MapRepresentation \<Rightarrow> bool" where
  "mapAllChildrenPresent (MapLeaf text) = True"
| "mapAllChildrenPresent (MapBranch left right sz) =
     ((case left of None \<Rightarrow> False | Some l \<Rightarrow> mapAllChildrenPresent l)
      \<and> (case right of None \<Rightarrow> False | Some r \<Rightarrow> mapAllChildrenPresent r))"


text \<open>
  A list of fragments that \<^verbatim>\<open>concatenateMapList\<close> can join: it is not empty and every
  entry is a map with all children present and correct sizes.
\<close>

definition goodFragments :: "MapRepresentation option list \<Rightarrow> bool" where
  "goodFragments frags =
     (frags \<noteq> [] \<and>
      list_all (\<lambda>f. case f of None \<Rightarrow> False
                      | Some x \<Rightarrow> mapAllChildrenPresent x \<and> mapSizeInvariant x) frags)"

text \<open>
  What a caller can observe of a rope, its text and its size, and of the result of a
  split.
\<close>

definition observe :: "IRope \<Rightarrow> string \<times> int" where
  "observe rope = (toString rope, size_rope rope)"

definition observeSplit ::
  "error + (IRope \<times> IRope) \<Rightarrow> error + ((string \<times> int) \<times> (string \<times> int))" where
  "observeSplit res =
     (case res of Inl e \<Rightarrow> Inl e | Inr (l, r) \<Rightarrow> Inr (observe l, observe r))"

section \<open>Basic facts\<close>

lemma substring_zero: "substring s 0 e = take (nat e) s"
  by (auto simp: substring_def Let_def max_def min_def)

lemma substring_from_drop: "substring_from s a = drop (nat a) s"
  by (auto simp: substring_from_def substring_def Let_def max_def min_def)

lemma toString_createRopeFromMap: "toString (createRopeFromMap m) = mapText m"
  by (induction m) (auto simp: new_RopeBranch_def split: option.splits)

lemma size_createRopeFromMap: "size_rope (createRopeFromMap m) = int (length (mapText m))"
  by (induction m) (auto simp: new_RopeBranch_def split: option.splits)

lemma sizeInvariant_createRopeFromMap: "sizeInvariant (createRopeFromMap m)"
  by (induction m) (auto simp: new_RopeBranch_def split: option.splits)

lemma allChildrenPresent_createRopeFromMap:
  "mapAllChildrenPresent m \<Longrightarrow> allChildrenPresent (createRopeFromMap m)"
  by (induction m) (auto simp: new_RopeBranch_def split: option.splits)

lemma size_rope_length: "sizeInvariant r \<Longrightarrow> size_rope r = int (length (toString r))"
  by (induction r) (auto split: option.splits)

lemma getSize_length: "mapSizeInvariant m \<Longrightarrow> getSize m = int (length (mapText m))"
  by (induction m) (auto split: option.splits)

lemma mapText_toMap: "mapText (toMap r) = toString r"
  by (induction r) (auto split: option.splits)

lemma getSize_toMap: "getSize (toMap r) = size_rope r"
  by (cases r) auto

lemma mapSizeInvariant_toMap: "sizeInvariant r \<Longrightarrow> mapSizeInvariant (toMap r)"
  by (induction r) (auto simp: getSize_toMap split: option.splits)

lemma mapAllChildrenPresent_toMap: "allChildrenPresent r \<Longrightarrow> mapAllChildrenPresent (toMap r)"
  by (induction r) (auto split: option.splits)


section \<open>Split on maps with all children present\<close>

text \<open>
  On a map with all children present and correct sizes \<^verbatim>\<open>splitHelper\<close> returns for every
  integer position \<open>p\<close>: the returned map holds the first \<open>p + 1\<close> characters and the
  fragments pushed on the list hold the rest, in order. Positions below 0 and beyond the
  end are clamped by \<open>take\<close> and \<open>drop\<close>.
\<close>

lemma take_append_int:
  assumes "int (length L) < p + 1"
  shows "take (nat (p + 1)) (L @ R) = L @ take (nat (p - int (length L) + 1)) R"
proof -
  have "nat (p + 1) - length L = nat (p - int (length L) + 1)"
    and "length L \<le> nat (p + 1)"
    using assms by linarith+
  then show ?thesis by simp
qed

lemma drop_append_int:
  assumes "int (length L) < p + 1"
  shows "drop (nat (p + 1)) (L @ R) = drop (nat (p - int (length L) + 1)) R"
proof -
  have "nat (p + 1) - length L = nat (p - int (length L) + 1)"
    and "length L \<le> nat (p + 1)"
    using assms by linarith+
  then show ?thesis by simp
qed

lemma splitHelper_full:
  assumes "mapAllChildrenPresent m" and "mapSizeInvariant m"
  shows "\<exists>m' frags. splitHelper m p list = Inr (m', list @ frags)
           \<and> mapText m' = take (nat (p + 1)) (mapText m)
           \<and> fragmentsText frags = drop (nat (p + 1)) (mapText m)
           \<and> goodFragments frags"
  using assms
proof (induction m arbitrary: p list)
  case (MapLeaf t)
  show ?case
    by (simp add: substring_zero substring_from_drop fragmentsText_def fragmentText_def
        goodFragments_def)
next
  case (MapBranch left right sz)
  from MapBranch.prems obtain l r where lr: "left = Some l" "right = Some r"
    by (auto split: option.splits)
  from MapBranch.prems lr have full: "mapAllChildrenPresent l" "mapAllChildrenPresent r"
    and inv: "mapSizeInvariant l" "mapSizeInvariant r"
    and sz: "sz = getSize l + getSize r"
    by auto
  have gl: "getSize l = int (length (mapText l))"
    using inv(1) by (rule getSize_length)
  consider (exact) "getSize l = p + 1" | (inLeft) "getSize l > p + 1" | (inRight) "getSize l < p + 1"
    by linarith
  then show ?case
  proof cases
    case exact
    have "nat (p + 1) = length (mapText l)" using exact gl by simp
    then show ?thesis
      using exact lr full inv sz
      by (simp add: fragmentsText_def fragmentText_def goodFragments_def)
  next
    case inLeft
    from MapBranch.IH(1)[of l p list] lr full inv
    obtain m' frags where rec: "splitHelper l p list = Inr (m', list @ frags)"
      "mapText m' = take (nat (p + 1)) (mapText l)"
      "fragmentsText frags = drop (nat (p + 1)) (mapText l)"
      "goodFragments frags"
      by auto
    have le: "nat (p + 1) \<le> length (mapText l)" using inLeft gl by simp
    have "splitHelper (MapBranch left right sz) p list
            = Inr (MapBranch (Some m') None (getSize m'), list @ (frags @ [right]))"
      using inLeft lr rec(1) by simp
    moreover have "mapText (MapBranch (Some m') None (getSize m'))
            = take (nat (p + 1)) (mapText (MapBranch left right sz))"
      using rec(2) le lr by simp
    moreover have "fragmentsText (frags @ [right])
            = drop (nat (p + 1)) (mapText (MapBranch left right sz))"
      using rec(3) le lr by (simp add: fragmentsText_def fragmentText_def)
    moreover have "goodFragments (frags @ [right])"
      using rec(4) lr full inv by (simp add: goodFragments_def)
    ultimately show ?thesis by blast
  next
    case inRight
    from MapBranch.IH(2)[of r "p - getSize l" list] lr full inv
    obtain m' frags where rec: "splitHelper r (p - getSize l) list = Inr (m', list @ frags)"
      "mapText m' = take (nat (p - getSize l + 1)) (mapText r)"
      "fragmentsText frags = drop (nat (p - getSize l + 1)) (mapText r)"
      "goodFragments frags"
      by auto
    have lt: "int (length (mapText l)) < p + 1" using inRight gl by simp
    have "splitHelper (MapBranch left right sz) p list
            = Inr (MapBranch left (Some m') (getSize m'), list @ frags)"
      using inRight lr rec(1) by simp
    moreover have "mapText (MapBranch left (Some m') (getSize m'))
            = take (nat (p + 1)) (mapText (MapBranch left right sz))"
      using rec(2) lr gl take_append_int[OF lt] by simp
    moreover have "fragmentsText frags
            = drop (nat (p + 1)) (mapText (MapBranch left right sz))"
      using rec(3) lr gl drop_append_int[OF lt] by simp
    ultimately show ?thesis using rec(4) by blast
  qed
qed

section \<open>Concatenation of the fragments\<close>

lemma concatenateLoop_good:
  assumes "mapAllChildrenPresent t" and "mapSizeInvariant t"
    and "list_all (\<lambda>f. case f of None \<Rightarrow> False
                      | Some x \<Rightarrow> mapAllChildrenPresent x \<and> mapSizeInvariant x) xs"
  shows "\<exists>m. concatenateLoop (Some t) xs = Inr (Some m)
           \<and> mapText m = mapText t @ fragmentsText xs
           \<and> mapAllChildrenPresent m \<and> mapSizeInvariant m"
  using assms
proof (induction xs arbitrary: t)
  case Nil
  then show ?case by (simp add: fragmentsText_def)
next
  case (Cons x xs)
  from Cons.prems(3) obtain y where y: "x = Some y" "mapAllChildrenPresent y" "mapSizeInvariant y"
    and rest: "list_all (\<lambda>f. case f of None \<Rightarrow> False
                      | Some x \<Rightarrow> mapAllChildrenPresent x \<and> mapSizeInvariant x) xs"
    by (auto split: option.splits)
  let ?t = "MapBranch (Some t) (Some y) (getSize t + getSize y)"
  have step: "concatenateTwoMaps (Some t) x = Inr ?t" using y(1) by simp
  have "mapAllChildrenPresent ?t" "mapSizeInvariant ?t"
    using Cons.prems(1,2) y by simp_all
  from Cons.IH[OF this rest] obtain m where
    "concatenateLoop (Some ?t) xs = Inr (Some m)"
    "mapText m = mapText ?t @ fragmentsText xs"
    "mapAllChildrenPresent m" "mapSizeInvariant m"
    by blast
  then show ?case
    using step y(1) by (simp add: fragmentsText_def fragmentText_def)
qed

lemma concatenateMapList_good:
  assumes "goodFragments frags"
  shows "\<exists>m. concatenateMapList frags = Inr (Some m)
           \<and> mapText m = fragmentsText frags
           \<and> mapAllChildrenPresent m \<and> mapSizeInvariant m"
proof (cases frags)
  case Nil
  with assms show ?thesis by (simp add: goodFragments_def)
next
  case (Cons x xs)
  with assms obtain y where y: "x = Some y" "mapAllChildrenPresent y" "mapSizeInvariant y"
    and rest: "list_all (\<lambda>f. case f of None \<Rightarrow> False
                      | Some x \<Rightarrow> mapAllChildrenPresent x \<and> mapSizeInvariant x) xs"
    by (auto simp: goodFragments_def split: option.splits)
  from concatenateLoop_good[OF y(2,3) rest] show ?thesis
    using Cons y(1) by (simp add: fragmentsText_def fragmentText_def)
qed

lemma splitAt_full:
  assumes "allChildrenPresent r" and "sizeInvariant r"
  shows "\<exists>l rt. splitAt r p = Inr (l, rt)
           \<and> toString l = take (nat (p + 1)) (toString r)
           \<and> toString rt = drop (nat (p + 1)) (toString r)
           \<and> allChildrenPresent rt \<and> sizeInvariant l \<and> sizeInvariant rt"
proof -
  from splitHelper_full[OF mapAllChildrenPresent_toMap[OF assms(1)]
      mapSizeInvariant_toMap[OF assms(2)], of p "[]"]
  obtain m' frags where h: "splitHelper (toMap r) p [] = Inr (m', frags)"
    "mapText m' = take (nat (p + 1)) (toString r)"
    "fragmentsText frags = drop (nat (p + 1)) (toString r)"
    "goodFragments frags"
    by (auto simp: mapText_toMap)
  from concatenateMapList_good[OF h(4)] obtain rm where
    c: "concatenateMapList frags = Inr (Some rm)" "mapText rm = fragmentsText frags"
    "mapAllChildrenPresent rm"
    by blast
  have "splitAt r p = Inr (createRopeFromMap m', createRopeFromMap rm)"
    using h(1) c(1) by (simp add: splitAt_def)
  then show ?thesis
    using h(2,3) c(2,3)
    by (simp add: toString_createRopeFromMap sizeInvariant_createRopeFromMap
        allChildrenPresent_createRopeFromMap)
qed

section \<open>The two revisions of split run in step\<close>

text \<open>
  The branch cases of the two revisions are the same code and read only sizes of maps that
  the call has not written yet; the leaf cases return maps of equal text and equal size and
  push the same fragment.
\<close>

lemma splitHelper_revisions:
  "(case splitHelper m p list of
      Inl e \<Rightarrow> splitHelper_part000 m p list = Inl e
    | Inr (m1, list1) \<Rightarrow>
        (\<exists>m2. splitHelper_part000 m p list = Inr (m2, list1)
           \<and> mapText m2 = mapText m1 \<and> getSize m2 = getSize m1))"
proof (induction m arbitrary: p list)
  case (MapLeaf t)
  show ?case by simp
next
  case (MapBranch left right sz)
  show ?case
  proof (cases left)
    case None
    then show ?thesis by simp
  next
    case l: (Some l)
    show ?thesis
    proof (cases right)
      case None
      have "(case splitHelper l p list of
              Inl e \<Rightarrow> splitHelper_part000 l p list = Inl e
            | Inr (m1, list1) \<Rightarrow>
                (\<exists>m2. splitHelper_part000 l p list = Inr (m2, list1)
                   \<and> mapText m2 = mapText m1 \<and> getSize m2 = getSize m1))"
        using MapBranch.IH(1)[of l p list] l by simp
      then show ?thesis using l None
        by (auto split: sum.splits prod.splits)
    next
      case r: (Some r)
      have L: "(case splitHelper l p list of
              Inl e \<Rightarrow> splitHelper_part000 l p list = Inl e
            | Inr (m1, list1) \<Rightarrow>
                (\<exists>m2. splitHelper_part000 l p list = Inr (m2, list1)
                   \<and> mapText m2 = mapText m1 \<and> getSize m2 = getSize m1))"
        using MapBranch.IH(1)[of l p list] l by simp
      have R: "(case splitHelper r (p - getSize l) list of
              Inl e \<Rightarrow> splitHelper_part000 r (p - getSize l) list = Inl e
            | Inr (m1, list1) \<Rightarrow>
                (\<exists>m2. splitHelper_part000 r (p - getSize l) list = Inr (m2, list1)
                   \<and> mapText m2 = mapText m1 \<and> getSize m2 = getSize m1))"
        using MapBranch.IH(2)[of r "p - getSize l" list] r by simp
      show ?thesis using l r L R
        by (auto split: sum.splits prod.splits)
    qed
  qed
qed

lemma splitAt_revisions:
  "(case splitAt r p of
      Inl e \<Rightarrow> splitAt_part000 r p = Inl e
    | Inr (l1, r1) \<Rightarrow>
        (\<exists>l2. splitAt_part000 r p = Inr (l2, r1)
           \<and> toString l2 = toString l1 \<and> size_rope l2 = size_rope l1))"
  using splitHelper_revisions[of "toMap r" p "[]"]
  by (auto simp: splitAt_def splitAt_part000_def toString_createRopeFromMap
      size_createRopeFromMap split: sum.splits prod.splits)

lemma splitAt_part000_full:
  assumes "allChildrenPresent r" and "sizeInvariant r"
  shows "\<exists>l rt. splitAt_part000 r p = Inr (l, rt)
           \<and> toString l = take (nat (p + 1)) (toString r)
           \<and> toString rt = drop (nat (p + 1)) (toString r)
           \<and> allChildrenPresent rt \<and> sizeInvariant l \<and> sizeInvariant rt"
proof -
  from splitAt_full[OF assms, of p] obtain l rt where
    h: "splitAt r p = Inr (l, rt)" "toString l = take (nat (p + 1)) (toString r)"
       "toString rt = drop (nat (p + 1)) (toString r)" "allChildrenPresent rt" "sizeInvariant rt"
    by blast
  from splitAt_revisions[of r p] h(1) obtain l2 where
    l2: "splitAt_part000 r p = Inr (l2, rt)" "toString l2 = toString l"
    by auto
  have "sizeInvariant l2"
    using l2(1)
    by (auto simp: splitAt_part000_def sizeInvariant_createRopeFromMap
        split: sum.splits prod.splits)
  then show ?thesis using h l2 by simp
qed

section \<open>Insert and delete on ropes with all children present\<close>

lemma insert_rope_zero:
  "\<exists>r'. insert_rope r t 0 = Inr r' \<and> toString r' = t @ toString r"
  by (simp add: insert_rope_def new_RopeBranch_def toString_createRopeFromMap mapText_toMap)

lemma insert_part000_zero:
  "\<exists>r'. insert_part000 r t 0 = Inr r' \<and> toString r' = t @ toString r"
  by (simp add: insert_part000_def new_RopeBranch_def toString_createRopeFromMap mapText_toMap)

lemma insert_rope_full:
  assumes "allChildrenPresent r" and "sizeInvariant r"
  shows "\<exists>r'. insert_rope r t loc = Inr r'
           \<and> toString r' = take (nat loc) (toString r) @ t @ drop (nat loc) (toString r)"
proof (cases "loc = 0")
  case True
  then show ?thesis using insert_rope_zero[of r t] by simp
next
  case False
  from splitAt_full[OF assms, of "loc - 1"] obtain l rt where
    "splitAt r (loc - 1) = Inr (l, rt)" "toString l = take (nat loc) (toString r)"
    "toString rt = drop (nat loc) (toString r)"
    by auto
  then show ?thesis using False
    by (simp add: insert_rope_def new_RopeBranch_def toString_createRopeFromMap mapText_toMap)
qed

lemma insert_part000_full:
  assumes "allChildrenPresent r" and "sizeInvariant r"
  shows "\<exists>r'. insert_part000 r t loc = Inr r'
           \<and> toString r' = take (nat loc) (toString r) @ t @ drop (nat loc) (toString r)"
proof (cases "loc = 0")
  case True
  then show ?thesis using insert_part000_zero[of r t] by simp
next
  case False
  from splitAt_part000_full[OF assms, of "loc - 1"] obtain l rt where
    "splitAt_part000 r (loc - 1) = Inr (l, rt)" "toString l = take (nat loc) (toString r)"
    "toString rt = drop (nat loc) (toString r)"
    by auto
  then show ?thesis using False
    by (simp add: insert_part000_def new_RopeBranch_def toString_createRopeFromMap mapText_toMap)
qed

lemma deleteRange_full:
  assumes "allChildrenPresent r" and "sizeInvariant r"
  shows "\<exists>r'. deleteRange r start end = Inr r'
           \<and> toString r' =
               take (nat start) (toString r)
               @ drop (nat (end - int (min (nat start) (length (toString r)))))
                   (drop (nat start) (toString r))"
proof -
  from splitAt_part000_full[OF assms, of "start - 1"] obtain l1 r1 where
    s1: "splitAt_part000 r (start - 1) = Inr (l1, r1)"
      "toString l1 = take (nat start) (toString r)"
      "toString r1 = drop (nat start) (toString r)"
      "allChildrenPresent r1" "sizeInvariant l1" "sizeInvariant r1"
    by auto
  have sz: "getSize (toMap l1) = int (min (nat start) (length (toString r)))"
    using size_rope_length[OF s1(5)] s1(2) by (simp add: getSize_toMap min.commute)
  from splitAt_part000_full[OF s1(4) s1(6), of "end - getSize (toMap l1) - 1"] obtain l2 r2 where
    s2: "splitAt_part000 r1 (end - getSize (toMap l1) - 1) = Inr (l2, r2)"
      "toString r2 = drop (nat (end - getSize (toMap l1))) (toString r1)"
    by auto
  show ?thesis
    using s1(1,2,3) s2 sz
    by (simp add: deleteRange_def new_RopeBranch_def toString_createRopeFromMap mapText_toMap)
qed

section \<open>The properties of the specification\<close>

subsection \<open>Split on ropes with all children present\<close>

text \<open>
  On a rope whose branches all have both children, both revisions of \<^verbatim>\<open>splitAt\<close> return
  for every integer position, the two results flatten to the text of the rope, and the left
  result has \<open>position + 1\<close> characters when the position is an index of the rope.
\<close>

lemma splitAt_roundtrip_full:
  assumes "allChildrenPresent r" and "sizeInvariant r"
  shows "\<exists>a b. splitAt r p = Inr (a, b) \<and> toString a @ toString b = toString r"
  using splitAt_full[OF assms, of p] by auto

lemma splitAt_part000_roundtrip_full:
  assumes "allChildrenPresent r" and "sizeInvariant r"
  shows "\<exists>a b. splitAt_part000 r p = Inr (a, b) \<and> toString a @ toString b = toString r"
  using splitAt_part000_full[OF assms, of p] by auto

lemma splitAt_sizes_full:
  assumes "allChildrenPresent r" and "sizeInvariant r"
    and "0 \<le> p" and "p < size_rope r"
  shows "\<exists>a b. splitAt r p = Inr (a, b) \<and> size_rope a = p + 1
           \<and> size_rope b = size_rope r - (p + 1)"
proof -
  from splitAt_full[OF assms(1,2), of p] obtain a b where
    h: "splitAt r p = Inr (a, b)" "toString a = take (nat (p + 1)) (toString r)"
       "toString b = drop (nat (p + 1)) (toString r)" "sizeInvariant a" "sizeInvariant b"
    by blast
  have "size_rope r = int (length (toString r))"
    using assms(2) by (rule size_rope_length)
  then have "size_rope a = p + 1" "size_rope b = size_rope r - (p + 1)"
    using h(2,3) size_rope_length[OF h(4)] size_rope_length[OF h(5)] assms(3,4) by auto
  then show ?thesis using h(1) by simp
qed

lemma splitAt_part000_sizes_full:
  assumes "allChildrenPresent r" and "sizeInvariant r"
    and "0 \<le> p" and "p < size_rope r"
  shows "\<exists>a b. splitAt_part000 r p = Inr (a, b) \<and> size_rope a = p + 1
           \<and> size_rope b = size_rope r - (p + 1)"
proof -
  from splitAt_part000_full[OF assms(1,2), of p] obtain a b where
    h: "splitAt_part000 r p = Inr (a, b)" "toString a = take (nat (p + 1)) (toString r)"
       "toString b = drop (nat (p + 1)) (toString r)" "sizeInvariant a" "sizeInvariant b"
    by blast
  have "size_rope r = int (length (toString r))"
    using assms(2) by (rule size_rope_length)
  then have "size_rope a = p + 1" "size_rope b = size_rope r - (p + 1)"
    using h(2,3) size_rope_length[OF h(4)] size_rope_length[OF h(5)] assms(3,4) by auto
  then show ?thesis using h(1) by simp
qed

lemma insert_part000_beyond_end_full:
  assumes "allChildrenPresent r" and "sizeInvariant r" and "size_rope r < loc"
  shows "\<exists>r'. insert_part000 r t loc = Inr r' \<and> toString r' = toString r @ t"
proof -
  have "length (toString r) \<le> nat loc"
    using assms(3) size_rope_length[OF assms(2)] by simp
  then show ?thesis using insert_part000_full[OF assms(1,2), of t loc] by simp
qed

lemma insert_rope_beyond_end_full:
  assumes "allChildrenPresent r" and "sizeInvariant r" and "size_rope r < loc"
  shows "\<exists>r'. insert_rope r t loc = Inr r' \<and> toString r' = toString r @ t"
proof -
  have "length (toString r) \<le> nat loc"
    using assms(3) size_rope_length[OF assms(2)] by simp
  then show ?thesis using insert_rope_full[OF assms(1,2), of t loc] by simp
qed

subsection \<open>C1: round trip of split\<close>

text \<open>
  Claim C1: for every rope \<open>r\<close> and every position \<open>0 \<le> position < size r\<close>, splitting
  \<open>r\<close> at the position returns a pair whose flattened texts, joined, are the flattened text
  of \<open>r\<close>. The rope that \<^verbatim>\<open>splitAt\<close> of \<^verbatim>\<open>src/lib/rope.ts\<close> returns as the left part of the
  leaf \<^verbatim>\<open>"ab"\<close> split at 1 is a branch without a right child, of size 2. Splitting that rope
  at position 0 returns no pair in either revision: the branch pushes its absent right child
  on the list, and \<^verbatim>\<open>concatenateTwoMaps\<close> raises a \<^verbatim>\<open>TypeError\<close> in \<^verbatim>\<open>getSize(undefined)\<close>.
  (\<open>splitAt_roundtrip_full\<close> above is the claim on ropes with all children present.)
\<close>

theorem splitAt_absent_child_TypeError:
  "splitAt (RopeLeaf ''ab'') 1 = Inr (RopeBranch (Some (RopeLeaf ''ab'')) None 2, RopeLeaf [])
   \<and> sizeInvariant (RopeBranch (Some (RopeLeaf ''ab'')) None 2)
   \<and> splitAt (RopeBranch (Some (RopeLeaf ''ab'')) None 2) 0 = Inl TypeError
   \<and> splitAt_part000 (RopeBranch (Some (RopeLeaf ''ab'')) None 2) 0 = Inl TypeError"
  by (simp add: splitAt_def splitAt_part000_def substring_def substring_from_def
      new_RopeBranch_def)

subsection \<open>C2: insert\<close>

text \<open>
  Claim C2: for every rope \<open>r\<close>, text \<open>t\<close> and location \<open>0 \<le> location \<le> size r\<close>, the
  result of insert flattens to the first \<open>location\<close> characters of \<open>r\<close>, then \<open>t\<close>, then the
  rest; at location 0 to \<open>t\<close> followed by the text of \<open>r\<close>. Inserting \<^verbatim>\<open>"X"\<close> at the end of
  the leaf \<^verbatim>\<open>"ab"\<close> returns a rope of size 3 that holds a branch without a right child;
  inserting \<^verbatim>\<open>"Y"\<close> into that rope at location 1 raises a \<^verbatim>\<open>TypeError\<close>. In the second
  revision the same happens starting from the branch of the leaves \<^verbatim>\<open>"ab"\<close> and \<^verbatim>\<open>"cd"\<close>.
  (\<open>insert_rope_full\<close> and \<open>insert_rope_zero\<close> above are the claim on ropes with all
  children present and, at location 0, on every rope.)
\<close>

theorem insert_after_insert_TypeError:
  "insert_rope (RopeLeaf ''ab'') ''X'' 2
     = Inr (RopeBranch
             (Some (RopeBranch (Some (RopeBranch (Some (RopeLeaf ''ab'')) None 2))
                               (Some (RopeLeaf ''X'')) 3))
             (Some (RopeLeaf [])) 3)
   \<and> insert_rope
       (RopeBranch
          (Some (RopeBranch (Some (RopeBranch (Some (RopeLeaf ''ab'')) None 2))
                            (Some (RopeLeaf ''X'')) 3))
          (Some (RopeLeaf [])) 3) ''Y'' 1 = Inl TypeError
   \<and> insert_part000 (RopeBranch (Some (RopeLeaf ''ab'')) (Some (RopeLeaf ''cd'')) 4) ''X'' 2
     = Inr (RopeBranch
             (Some (RopeBranch (Some (RopeBranch (Some (RopeLeaf ''ab'')) None 2))
                               (Some (RopeLeaf ''X'')) 3))
             (Some (RopeLeaf ''cd'')) 5)
   \<and> insert_part000
       (RopeBranch
          (Some (RopeBranch (Some (RopeBranch (Some (RopeLeaf ''ab'')) None 2))
                            (Some (RopeLeaf ''X'')) 3))
          (Some (RopeLeaf ''cd'')) 5) ''Y'' 1 = Inl TypeError"
  by (simp add: insert_rope_def insert_part000_def splitAt_def splitAt_part000_def
      substring_def substring_from_def new_RopeBranch_def)

subsection \<open>C3: deleteRange\<close>

text \<open>
  \<^verbatim>\<open>deleteRange(rope, start, end)\<close> of \<^verbatim>\<open>src/unnamed/part_000\<close> cuts before index \<open>start\<close>
  and before index \<open>end\<close>: the second split is at \<open>end - size(leftStartSplit) - 1\<close>, whose
  left result has \<open>end - start\<close> characters. The character at index \<open>end\<close> stays. On the
  specification's own example the result has two spaces, and on a branch without a right
  child the call raises a \<^verbatim>\<open>TypeError\<close>.
\<close>

theorem deleteRange_inclusive_counterexample:
  "deleteRange (RopeLeaf ''Hello Big World'') 6 9
     = Inr (RopeBranch (Some (RopeLeaf ''Hello '')) (Some (RopeLeaf '' World'')) 12)
   \<and> toString (RopeBranch (Some (RopeLeaf ''Hello '')) (Some (RopeLeaf '' World'')) 12)
       = ''Hello  World''
   \<and> ''Hello  World'' \<noteq> take 6 ''Hello Big World'' @ drop (9 + 1) ''Hello Big World''
   \<and> deleteRange (RopeBranch (Some (RopeLeaf ''ab'')) None 2) 0 0 = Inl TypeError"
  by (simp add: deleteRange_def splitAt_part000_def substring_def substring_from_def
      new_RopeBranch_def)

text \<open>
  Claim C3, as amended: for every rope \<open>r\<close> whose branches all have both children and all
  \<open>0 \<le> start \<le> end \<le> size r\<close>, \<^verbatim>\<open>deleteRange(r, start, end)\<close> returns a rope that
  flattens to the first \<open>start\<close> characters of \<open>r\<close> followed by the characters from index
  \<open>end\<close> onward: the half-open range from \<open>start\<close> up to, not including, \<open>end\<close> is removed.
\<close>

theorem deleteRange_removes_half_open_range:
  assumes "allChildrenPresent r" and "sizeInvariant r"
    and "0 \<le> start" and "start \<le> end" and "end \<le> size_rope r"
  shows "\<exists>r'. deleteRange r start end = Inr r'
           \<and> toString r' = take (nat start) (toString r) @ drop (nat end) (toString r)"
proof -
  have len: "size_rope r = int (length (toString r))"
    using assms(2) by (rule size_rope_length)
  have "min (nat start) (length (toString r)) = nat start"
    using assms(3,4,5) len by simp
  moreover have "nat (end - int (nat start)) + nat start = nat end"
    using assms(3,4) by simp
  ultimately show ?thesis
    using deleteRange_full[OF assms(1,2), of start "end"] by simp
qed

theorem deleteRange_removes_half_open_range_witness:
  "allChildrenPresent (RopeLeaf ''Hello Big World'')
   \<and> sizeInvariant (RopeLeaf ''Hello Big World'')
   \<and> (0::int) \<le> 6 \<and> (6::int) \<le> 10 \<and> 10 \<le> size_rope (RopeLeaf ''Hello Big World'')
   \<and> (\<exists>r'. deleteRange (RopeLeaf ''Hello Big World'') 6 10 = Inr r'
          \<and> toString r' = ''Hello World'')"
  using deleteRange_removes_half_open_range[of "RopeLeaf ''Hello Big World''" 6 10]
  by simp

subsection \<open>C4: sizes written by \<^verbatim>\<open>splitHelper\<close>\<close>

text \<open>
  Claim C4: every branch that \<^verbatim>\<open>splitHelper\<close> rebuilds records the sum of the sizes of its
  children, also when the boundary falls in the right subtree. In that case the source
  writes \<^verbatim>\<open>map.size = getSize(map.right)\<close>, leaving out the left child that it keeps. For
  the branch of the leaves \<^verbatim>\<open>"ab"\<close> and \<^verbatim>\<open>"cd"\<close> split at position 2 the returned branch has
  children of sizes 2 and 1 and records the size 1, in both revisions. (The other two cases
  record the size of the only child that remains.)
\<close>

theorem splitHelper_right_case_stale_size:
  "splitHelper (toMap (new_RopeBranch (Some (RopeLeaf ''ab'')) (Some (RopeLeaf ''cd'')))) 2 []
     = Inr (MapBranch (Some (MapLeaf ''ab'')) (Some (MapBranch (Some (MapLeaf ''c'')) None 1)) 1,
            [Some (MapLeaf ''d'')])
   \<and> getSize (MapLeaf ''ab'') + getSize (MapBranch (Some (MapLeaf ''c'')) None 1) = 3
   \<and> \<not> mapSizeInvariant
         (MapBranch (Some (MapLeaf ''ab'')) (Some (MapBranch (Some (MapLeaf ''c'')) None 1)) 1)
   \<and> splitHelper_part000
       (toMap (new_RopeBranch (Some (RopeLeaf ''ab'')) (Some (RopeLeaf ''cd'')))) 2 []
     = Inr (MapBranch (Some (MapLeaf ''ab'')) (Some (MapLeaf ''c'')) 1, [Some (MapLeaf ''d'')])
   \<and> \<not> mapSizeInvariant (MapBranch (Some (MapLeaf ''ab'')) (Some (MapLeaf ''c'')) 1)"
  by (simp add: substring_def substring_from_def new_RopeBranch_def)

subsection \<open>C5: the size invariant of ropes\<close>

text \<open>
  Claim C5: in every rope produced by an operation of the interface (a leaf, a branch built
  by the constructor, a rope built from a map, the two results of a split, a concatenation,
  the result of insert and of deleteRange) every branch has as its size the sum of the sizes
  of its children, an absent child counting 0. Every rope that these operations return is
  built by \<^verbatim>\<open>createRopeFromMap\<close>, whose branches come from the constructor, so the sizes
  recorded in the intermediate maps do not reach it; nothing is assumed of the rope given.
\<close>

theorem size_invariant_of_results:
  "sizeInvariant (RopeLeaf t)
   \<and> ((\<forall>x. l = Some x \<longrightarrow> sizeInvariant x) \<and> (\<forall>y. r = Some y \<longrightarrow> sizeInvariant y)
        \<longrightarrow> sizeInvariant (new_RopeBranch l r))
   \<and> sizeInvariant (createRopeFromMap m)
   \<and> (\<forall>c. concatenateTwoMaps (Some m1) (Some m2) = Inr c
          \<longrightarrow> getSize c = getSize m1 + getSize m2 \<and> sizeInvariant (createRopeFromMap c))
   \<and> (\<forall>a b. splitAt rope p = Inr (a, b) \<longrightarrow> sizeInvariant a \<and> sizeInvariant b)
   \<and> (\<forall>a b. splitAt_part000 rope p = Inr (a, b) \<longrightarrow> sizeInvariant a \<and> sizeInvariant b)
   \<and> (\<forall>c. insert_rope rope t loc = Inr c \<longrightarrow> sizeInvariant c)
   \<and> (\<forall>c. insert_part000 rope t loc = Inr c \<longrightarrow> sizeInvariant c)
   \<and> (\<forall>c. deleteRange rope start end = Inr c \<longrightarrow> sizeInvariant c)"
proof -
  have branch: "(\<forall>x. l = Some x \<longrightarrow> sizeInvariant x) \<and> (\<forall>y. r = Some y \<longrightarrow> sizeInvariant y)
        \<longrightarrow> sizeInvariant (new_RopeBranch l r)"
    by (auto simp: new_RopeBranch_def split: option.splits)
  have conc: "\<forall>c. concatenateTwoMaps (Some m1) (Some m2) = Inr c
          \<longrightarrow> getSize c = getSize m1 + getSize m2 \<and> sizeInvariant (createRopeFromMap c)"
    by (auto simp: sizeInvariant_createRopeFromMap)
  have undef: "\<And>x c. createRopeFromMap_undef x = Inr c \<Longrightarrow> sizeInvariant c"
    by (case_tac x) (auto simp: sizeInvariant_createRopeFromMap)
  have s1: "\<forall>a b. splitAt rope p = Inr (a, b) \<longrightarrow> sizeInvariant a \<and> sizeInvariant b"
    by (auto simp: splitAt_def sizeInvariant_createRopeFromMap
        split: sum.splits prod.splits dest: undef)
  have s2: "\<forall>a b. splitAt_part000 rope p = Inr (a, b) \<longrightarrow> sizeInvariant a \<and> sizeInvariant b"
    by (auto simp: splitAt_part000_def sizeInvariant_createRopeFromMap
        split: sum.splits prod.splits dest: undef)
  have i1: "\<forall>c. insert_rope rope t loc = Inr c \<longrightarrow> sizeInvariant c"
    by (auto simp: insert_rope_def Let_def new_RopeBranch_def sizeInvariant_createRopeFromMap
        split: sum.splits prod.splits if_splits dest: undef)
  have i2: "\<forall>c. insert_part000 rope t loc = Inr c \<longrightarrow> sizeInvariant c"
    by (auto simp: insert_part000_def Let_def new_RopeBranch_def sizeInvariant_createRopeFromMap
        split: sum.splits prod.splits if_splits dest: undef)
  have d: "\<forall>c. deleteRange rope start end = Inr c \<longrightarrow> sizeInvariant c"
    by (auto simp: deleteRange_def new_RopeBranch_def sizeInvariant_createRopeFromMap
        split: sum.splits prod.splits dest: undef)
  show ?thesis
    using branch conc s1 s2 i1 i2 d by (simp add: sizeInvariant_createRopeFromMap)
qed

theorem size_invariant_of_results_witness:
  "sizeInvariant (new_RopeBranch (Some (RopeLeaf ''a'')) None)
   \<and> sizeInvariant (createRopeFromMap (MapBranch (Some (MapLeaf ''a'')) None 7))
   \<and> splitAt (RopeBranch (Some (RopeLeaf ''ab'')) (Some (RopeLeaf ''cd'')) 4) 2
       = Inr (RopeBranch (Some (RopeLeaf ''ab''))
                (Some (RopeBranch (Some (RopeLeaf ''c'')) None 1)) 3,
              RopeLeaf ''d'')
   \<and> sizeInvariant (RopeBranch (Some (RopeLeaf ''ab''))
                      (Some (RopeBranch (Some (RopeLeaf ''c'')) None 1)) 3)
   \<and> sizeInvariant (RopeLeaf ''d'')
   \<and> (\<exists>c. insert_rope (RopeLeaf ''ab'') ''X'' 1 = Inr c \<and> sizeInvariant c)
   \<and> (\<exists>c. deleteRange (RopeLeaf ''abc'') 1 2 = Inr c \<and> sizeInvariant c)"
proof -
  have e1: "splitAt (RopeBranch (Some (RopeLeaf ''ab'')) (Some (RopeLeaf ''cd'')) 4) 2
       = Inr (RopeBranch (Some (RopeLeaf ''ab''))
                (Some (RopeBranch (Some (RopeLeaf ''c'')) None 1)) 3,
              RopeLeaf ''d'')"
    by (simp add: splitAt_def substring_def substring_from_def new_RopeBranch_def)
  have e2: "\<exists>c. insert_rope (RopeLeaf ''ab'') ''X'' 1 = Inr c"
    by (simp add: insert_rope_def splitAt_def substring_def substring_from_def)
  have e3: "\<exists>c. deleteRange (RopeLeaf ''abc'') 1 2 = Inr c"
    by (simp add: deleteRange_def splitAt_part000_def substring_def substring_from_def)
  from size_invariant_of_results[of "''X''" "Some (RopeLeaf ''a'')" None
      "MapBranch (Some (MapLeaf ''a'')) None 7" "MapLeaf ''a''" "MapLeaf ''b''"
      "RopeBranch (Some (RopeLeaf ''ab'')) (Some (RopeLeaf ''cd'')) 4" 2]
  have a: "sizeInvariant (new_RopeBranch (Some (RopeLeaf ''a'')) None)"
    and b: "sizeInvariant (createRopeFromMap (MapBranch (Some (MapLeaf ''a'')) None 7))"
    and c: "sizeInvariant (RopeBranch (Some (RopeLeaf ''ab''))
                      (Some (RopeBranch (Some (RopeLeaf ''c'')) None 1)) 3)
            \<and> sizeInvariant (RopeLeaf ''d'')"
    using e1 by auto
  from size_invariant_of_results[of "''X''" None None "MapLeaf ''a''" "MapLeaf ''a''"
      "MapLeaf ''b''" "RopeLeaf ''ab''" 0 1] e2
  have i: "\<exists>c. insert_rope (RopeLeaf ''ab'') ''X'' 1 = Inr c \<and> sizeInvariant c"
    by blast
  from size_invariant_of_results[of "''X''" None None "MapLeaf ''a''" "MapLeaf ''a''"
      "MapLeaf ''b''" "RopeLeaf ''abc''" 0 1 1 2] e3
  have d: "\<exists>c. deleteRange (RopeLeaf ''abc'') 1 2 = Inr c \<and> sizeInvariant c"
    by blast
  show ?thesis using a b c e1 i d by simp
qed

subsection \<open>C6: the two parts of a split\<close>

text \<open>
  Claim C6: for every rope \<open>r\<close> and every position \<open>0 \<le> position < size r\<close>, the left
  result of the split flattens to the characters at indices 0 to \<open>position\<close> and has size
  \<open>position + 1\<close>, the right result flattens to the characters from \<open>position + 1\<close> on, and
  at \<open>position = size r - 1\<close> the right result is empty. For the branch with the leaf
  \<^verbatim>\<open>"ab"\<close> on the left and no right child, of size 2, the split at position 1, the last one,
  returns no parts in either revision: the size of the left child equals \<open>position + 1\<close> and
  the source evaluates \<^verbatim>\<open>getSize(map.right)\<close> on \<^verbatim>\<open>undefined\<close>.
  (\<open>splitAt_full\<close>, \<open>splitAt_part000_full\<close>, \<open>splitAt_sizes_full\<close> and
  \<open>splitAt_part000_sizes_full\<close> above are the claim on ropes with all children present.)
\<close>

theorem splitAt_last_position_TypeError:
  "sizeInvariant (RopeBranch (Some (RopeLeaf ''ab'')) None 2)
   \<and> size_rope (RopeBranch (Some (RopeLeaf ''ab'')) None 2) - 1 = 1
   \<and> splitAt (RopeBranch (Some (RopeLeaf ''ab'')) None 2) 1 = Inl TypeError
   \<and> splitAt_part000 (RopeBranch (Some (RopeLeaf ''ab'')) None 2) 1 = Inl TypeError"
  by (simp add: splitAt_def splitAt_part000_def)

subsection \<open>C7: indices out of range\<close>

text \<open>
  No function of the source checks an index, and the source has no error of the kind the
  specification calls \<^verbatim>\<open>InvalidIndex\<close>. A location beyond the end, a negative location, a
  split position beyond the end and a range with \<open>start > end\<close> all return a rope.
\<close>

theorem no_InvalidIndex_counterexample:
  "insert_rope (RopeLeaf ''ab'') ''X'' 5
     = Inr (RopeBranch
             (Some (RopeBranch (Some (RopeBranch (Some (RopeLeaf ''ab'')) None 2))
                               (Some (RopeLeaf ''X'')) 3))
             (Some (RopeLeaf [])) 3)
   \<and> insert_rope (RopeLeaf ''ab'') ''X'' (- 1)
     = Inr (RopeBranch
             (Some (RopeBranch (Some (RopeBranch (Some (RopeLeaf [])) None 0))
                               (Some (RopeLeaf ''X'')) 1))
             (Some (RopeLeaf ''ab'')) 3)
   \<and> splitAt (RopeLeaf ''ab'') 7
     = Inr (RopeBranch (Some (RopeLeaf ''ab'')) None 2, RopeLeaf [])
   \<and> splitAt_part000 (RopeLeaf ''ab'') (- 3) = Inr (RopeLeaf [], RopeLeaf ''ab'')
   \<and> deleteRange (RopeLeaf ''abc'') 2 1
     = Inr (RopeBranch (Some (RopeLeaf ''ab'')) (Some (RopeLeaf ''c'')) 3)"
  by (simp add: insert_rope_def deleteRange_def splitAt_def splitAt_part000_def
      substring_def substring_from_def new_RopeBranch_def)

text \<open>
  Claim C7, as amended: the operations never signal an error for an index out of range. For
  every rope \<open>r\<close> whose branches all have both children and every integer index, in range
  or not, split, insert and deleteRange return ropes: an index is used as a cut point
  clamped to the ends of the text (\<open>take\<close> and \<open>drop\<close> do the clamping), and a range with
  \<open>start > end\<close> inside the text removes nothing. The rope given is not changed: the source
  writes only to the map built by \<^verbatim>\<open>toMap\<close>, and ropes are values here.
\<close>

theorem out_of_range_indices_are_clamped:
  assumes "allChildrenPresent r" and "sizeInvariant r"
  shows "(\<exists>a b. splitAt r p = Inr (a, b)
            \<and> toString a = take (nat (p + 1)) (toString r)
            \<and> toString b = drop (nat (p + 1)) (toString r))
       \<and> (\<exists>a b. splitAt_part000 r p = Inr (a, b)
            \<and> toString a = take (nat (p + 1)) (toString r)
            \<and> toString b = drop (nat (p + 1)) (toString r))
       \<and> (\<exists>c. insert_rope r t loc = Inr c
            \<and> toString c = take (nat loc) (toString r) @ t @ drop (nat loc) (toString r))
       \<and> (\<exists>c. insert_part000 r t loc = Inr c
            \<and> toString c = take (nat loc) (toString r) @ t @ drop (nat loc) (toString r))
       \<and> (\<exists>c. deleteRange r start end = Inr c
            \<and> toString c =
                take (nat start) (toString r)
                @ drop (nat (end - int (min (nat start) (length (toString r)))))
                    (drop (nat start) (toString r)))"
proof -
  have "\<exists>a b. splitAt r p = Inr (a, b)
            \<and> toString a = take (nat (p + 1)) (toString r)
            \<and> toString b = drop (nat (p + 1)) (toString r)"
    using splitAt_full[OF assms, of p] by blast
  moreover have "\<exists>a b. splitAt_part000 r p = Inr (a, b)
            \<and> toString a = take (nat (p + 1)) (toString r)
            \<and> toString b = drop (nat (p + 1)) (toString r)"
    using splitAt_part000_full[OF assms, of p] by blast
  ultimately show ?thesis
    using insert_rope_full[OF assms, of t loc] insert_part000_full[OF assms, of t loc]
      deleteRange_full[OF assms, of start "end"]
    by blast
qed

theorem out_of_range_indices_are_clamped_witness:
  "allChildrenPresent (RopeBranch (Some (RopeLeaf ''ab'')) (Some (RopeLeaf ''cd'')) 4)
   \<and> sizeInvariant (RopeBranch (Some (RopeLeaf ''ab'')) (Some (RopeLeaf ''cd'')) 4)
   \<and> (\<exists>a b. splitAt (RopeBranch (Some (RopeLeaf ''ab'')) (Some (RopeLeaf ''cd'')) 4) 9
               = Inr (a, b) \<and> toString a = ''abcd'' \<and> toString b = [])
   \<and> (\<exists>c. insert_rope (RopeBranch (Some (RopeLeaf ''ab'')) (Some (RopeLeaf ''cd'')) 4)
               ''X'' 9 = Inr c \<and> toString c = ''abcdX'')
   \<and> (\<exists>c. deleteRange (RopeBranch (Some (RopeLeaf ''ab'')) (Some (RopeLeaf ''cd'')) 4)
               3 1 = Inr c \<and> toString c = ''abcd'')"
  using out_of_range_indices_are_clamped
    [of "RopeBranch (Some (RopeLeaf ''ab'')) (Some (RopeLeaf ''cd'')) 4" 9 "''X''" 9 3 1]
  by simp

subsection \<open>C8: isBalanced\<close>

text \<open>
  Claim C8: for every node \<open>n\<close>, \<^verbatim>\<open>isBalanced\<close> holds of \<open>n\<close> if and only if \<open>n\<close> is a leaf,
  or \<open>n\<close> is a branch whose children are both balanced, an absent child counting as
  balanced, and whose children's heights, an absent child having height 0, differ by less
  than 2.
\<close>

theorem isBalanced_iff:
  "isBalanced n \<longleftrightarrow>
     ((\<exists>t. n = RopeLeaf t)
      \<or> (\<exists>l r c. n = RopeBranch l r c
            \<and> (\<forall>x. l = Some x \<longrightarrow> isBalanced x)
            \<and> (\<forall>y. r = Some y \<longrightarrow> isBalanced y)
            \<and> \<bar>(case l of None \<Rightarrow> 0 | Some x \<Rightarrow> height x)
                 - (case r of None \<Rightarrow> 0 | Some y \<Rightarrow> height y)\<bar> < 2))"
  by (cases n) (auto simp: leftHeight_def rightHeight_def split: option.splits)

theorem isBalanced_iff_witness:
  "isBalanced (RopeBranch (Some (RopeLeaf ''a'')) None 1)
   \<and> \<not> isBalanced
         (RopeBranch (Some (RopeBranch (Some (RopeLeaf ''a'')) (Some (RopeLeaf ''b'')) 2))
            None 2)"
  using isBalanced_iff[of "RopeBranch (Some (RopeLeaf ''a'')) None 1"]
    isBalanced_iff[of "RopeBranch (Some (RopeBranch (Some (RopeLeaf ''a''))
                                      (Some (RopeLeaf ''b'')) 2)) None 2"]
  by (simp add: leftHeight_def rightHeight_def)

subsection \<open>C9: the two revisions of split\<close>

text \<open>
  The two revisions return ropes of different shape, here for the leaf \<^verbatim>\<open>"ab"\<close> split at
  position 0.
\<close>

lemma splitAt_revisions_example:
  "splitAt (RopeLeaf ''ab'') 0 = Inr (RopeBranch (Some (RopeLeaf ''a'')) None 1, RopeLeaf ''b'')
   \<and> splitAt_part000 (RopeLeaf ''ab'') 0 = Inr (RopeLeaf ''a'', RopeLeaf ''b'')"
  by (simp add: splitAt_def splitAt_part000_def substring_def substring_from_def
      new_RopeBranch_def)

text \<open>
  Claim C9: the two revisions of the split routine are observationally equivalent: for every
  rope and every position the left results of the two \<^verbatim>\<open>splitAt\<close> have the same flattened
  text and the same size, and so have the right results. This holds at every integer
  position and for every rope: where one revision raises a \<^verbatim>\<open>TypeError\<close> the other raises
  it too.
\<close>

theorem splitAt_revisions_observationally_equal:
  "observeSplit (splitAt rope position) = observeSplit (splitAt_part000 rope position)"
  using splitAt_revisions[of rope position]
  by (auto simp: observeSplit_def observe_def split: sum.splits prod.splits)

subsection \<open>C10: insert beyond the end\<close>

text \<open>
  Claim C10: for every rope \<open>r\<close> and every location greater than the size of \<open>r\<close>, insert
  signals no error and returns a rope that flattens to the text of \<open>r\<close> followed by the
  inserted text. The rope built by \<^verbatim>\<open>createRopeFromMap\<close> from a branch that has the leaf
  \<^verbatim>\<open>"a"\<close> on the left and no right child has size 1; inserting into it at location 5
  descends into the absent right child and raises a \<^verbatim>\<open>TypeError\<close> at \<^verbatim>\<open>map.kind\<close>, in both
  revisions. (\<open>insert_rope_beyond_end_full\<close> and \<open>insert_part000_beyond_end_full\<close> above
  are the claim on ropes with all children present.)
\<close>

theorem insert_beyond_end_TypeError:
  "createRopeFromMap (MapBranch (Some (MapLeaf ''a'')) None 1)
     = RopeBranch (Some (RopeLeaf ''a'')) None 1
   \<and> size_rope (RopeBranch (Some (RopeLeaf ''a'')) None 1) < 5
   \<and> insert_rope (RopeBranch (Some (RopeLeaf ''a'')) None 1) ''X'' 5 = Inl TypeError
   \<and> insert_part000 (RopeBranch (Some (RopeLeaf ''a'')) None 1) ''X'' 5 = Inl TypeError"
  by (simp add: insert_rope_def insert_part000_def splitAt_def splitAt_part000_def
      new_RopeBranch_def)

end
